theory Spec2Isabelle
  imports Complex_Main "HOL-Library.AList"
begin

section \<open>Python strings\<close>

text \<open>
  Python \<^verbatim>\<open>str\<close> values are modelled as \<^typ>\<open>string\<close>: a \<^typ>\<open>char\<close> is a
  code point below U+0100.  On these code points the tables below are exactly
  what \<^verbatim>\<open>str.isspace\<close> (and with it \<^verbatim>\<open>str.strip\<close>), \<^verbatim>\<open>str.lower\<close> and
  \<^verbatim>\<open>str.isalnum\<close> do: the whitespace includes U+0085 and U+00A0, the letters
  U+00C0 to U+00DE (but the sign U+00D7) have lower-case forms, and the
  letters and numeric signs of the upper half are alphanumeric.
\<close>

definition whitespace_chars :: "char list" where
  "whitespace_chars =
     [CHR 0x09, CHR 0x0A, CHR 0x0B, CHR 0x0C, CHR 0x0D,
      CHR 0x1C, CHR 0x1D, CHR 0x1E, CHR 0x1F, CHR 0x20,
      CHR 0x85, CHR 0xA0]"

definition isspace :: "char \<Rightarrow> bool" where
  "isspace c = (c \<in> set whitespace_chars)"

definition ascii_uppercase :: string where
  "ascii_uppercase = ''ABCDEFGHIJKLMNOPQRSTUVWXYZ''"

definition ascii_lowercase :: string where
  "ascii_lowercase = ''abcdefghijklmnopqrstuvwxyz''"

definition digits :: string where
  "digits = ''0123456789''"

text \<open>The upper-case letters from U+00C0 to U+00DE and, in the same order, their lower-case forms.\<close>

definition latin1_uppercase :: string where
  "latin1_uppercase =
     [CHR 0xC0, CHR 0xC1, CHR 0xC2, CHR 0xC3, CHR 0xC4, CHR 0xC5, CHR 0xC6, CHR 0xC7,
      CHR 0xC8, CHR 0xC9, CHR 0xCA, CHR 0xCB, CHR 0xCC, CHR 0xCD, CHR 0xCE, CHR 0xCF,
      CHR 0xD0, CHR 0xD1, CHR 0xD2, CHR 0xD3, CHR 0xD4, CHR 0xD5, CHR 0xD6, CHR 0xD8,
      CHR 0xD9, CHR 0xDA, CHR 0xDB, CHR 0xDC, CHR 0xDD, CHR 0xDE]"

definition latin1_lowercase :: string where
  "latin1_lowercase =
     [CHR 0xE0, CHR 0xE1, CHR 0xE2, CHR 0xE3, CHR 0xE4, CHR 0xE5, CHR 0xE6, CHR 0xE7,
      CHR 0xE8, CHR 0xE9, CHR 0xEA, CHR 0xEB, CHR 0xEC, CHR 0xED, CHR 0xEE, CHR 0xEF,
      CHR 0xF0, CHR 0xF1, CHR 0xF2, CHR 0xF3, CHR 0xF4, CHR 0xF5, CHR 0xF6, CHR 0xF8,
      CHR 0xF9, CHR 0xFA, CHR 0xFB, CHR 0xFC, CHR 0xFD, CHR 0xFE]"

text \<open>
  The other alphanumeric code points of the upper half: the ordinal
  indicators, the superscript digits, the micro sign, the fractions, and the
  two lower-case letters with no upper-case form below U+0100.
\<close>

definition latin1_other_alnum :: string where
  "latin1_other_alnum =
     [CHR 0xAA, CHR 0xB2, CHR 0xB3, CHR 0xB5, CHR 0xB9, CHR 0xBA, CHR 0xBC, CHR 0xBD,
      CHR 0xBE, CHR 0xDF, CHR 0xFF]"

definition uppercase :: string where
  "uppercase = ascii_uppercase @ latin1_uppercase"

definition lowercase :: string where
  "lowercase = ascii_lowercase @ latin1_lowercase"

definition lower_char :: "char \<Rightarrow> char" where
  "lower_char c =
     (case map_of (zip uppercase lowercase) c of
        None \<Rightarrow> c
      | Some d \<Rightarrow> d)"

definition lower :: "string \<Rightarrow> string" where
  "lower s = map lower_char s"

definition isalnum :: "char \<Rightarrow> bool" where
  "isalnum c = (c \<in> set (uppercase @ lowercase @ digits @ latin1_other_alnum))"

definition lstrip :: "string \<Rightarrow> string" where
  "lstrip s = dropWhile isspace s"

definition rstrip :: "string \<Rightarrow> string" where
  "rstrip s = rev (dropWhile isspace (rev s))"

definition strip :: "string \<Rightarrow> string" where
  "strip s = rstrip (lstrip s)"

definition startswith :: "string \<Rightarrow> string \<Rightarrow> bool" where
  "startswith s p = (take (length p) s = p)"

definition endswith :: "string \<Rightarrow> string \<Rightarrow> bool" where
  "endswith s p = (length p \<le> length s \<and> drop (length s - length p) s = p)"

text \<open>\<^verbatim>\<open>sub in s\<close> on two strings: \<open>sub\<close> occurs in \<open>s\<close> as a contiguous run.\<close>

fun contains :: "string \<Rightarrow> string \<Rightarrow> bool" where
  "contains [] sub = (sub = [])"
| "contains (c # cs) sub = (startswith (c # cs) sub \<or> contains cs sub)"

text \<open>
  \<^verbatim>\<open>s.split(sep, 1)\<close> for a one-character separator that is known to occur in
  \<open>s\<close> (the callers test \<^verbatim>\<open>sep in s\<close> first): the text before the first
  separator and the text after it.
\<close>

definition split_once :: "char \<Rightarrow> string \<Rightarrow> string \<times> string" where
  "split_once sep s = (takeWhile (\<lambda>c. c \<noteq> sep) s, drop 1 (dropWhile (\<lambda>c. c \<noteq> sep) s))"

text \<open>\<^verbatim>\<open>s.split(sep)\<close> for a one-character separator: never the empty list.\<close>

fun split_char :: "char \<Rightarrow> string \<Rightarrow> string list" where
  "split_char sep [] = [[]]"
| "split_char sep (c # cs) =
     (if c = sep then [] # split_char sep cs
      else (case split_char sep cs of
              [] \<Rightarrow> [[c]]
            | w # ws \<Rightarrow> (c # w) # ws))"

text \<open>\<^verbatim>\<open>s.replace(' ', '_')\<close>.\<close>

definition replace_char :: "char \<Rightarrow> char \<Rightarrow> string \<Rightarrow> string" where
  "replace_char a b s = map (\<lambda>c. if c = a then b else c) s"

section \<open>JSON values and Python errors\<close>

text \<open>
  What \<^verbatim>\<open>json.loads\<close> produces: \<^verbatim>\<open>None\<close>, booleans, integers, floats, strings,
  lists and dictionaries.  A dictionary is an association list in insertion
  order; \<^const>\<open>map_of\<close> reads it and \<^const>\<open>AList.update\<close> is item assignment
  (an existing key keeps its place, a new key goes to the end).
\<close>

datatype json =
    JNull
  | JBool bool
  | JInt int
  | JFloat real
  | JStr string
  | JList "json list"
  | JObj "(string \<times> json) list"

type_synonym dict = "(string \<times> json) list"

datatype py_error = KeyError | TypeError | AttributeError | JSONDecodeError | LibraryError

text \<open>Python truthiness, as used by \<^verbatim>\<open>if x\<close>, \<^verbatim>\<open>x and y\<close> and \<^verbatim>\<open>not x\<close>.\<close>

fun truthy :: "json \<Rightarrow> bool" where
  "truthy JNull = False"
| "truthy (JBool b) = b"
| "truthy (JInt n) = (n \<noteq> 0)"
| "truthy (JFloat x) = (x \<noteq> 0)"
| "truthy (JStr s) = (s \<noteq> [])"
| "truthy (JList xs) = (xs \<noteq> [])"
| "truthy (JObj kvs) = (kvs \<noteq> [])"

section \<open>Title derivation (\<^verbatim>\<open>MainWindow.update_asset_title_from_result\<close>)\<close>

definition name_fields :: "string list" where
  "name_fields =
     [''name'', ''asset_name'', ''chemical_name'', ''equipment_name'',
      ''reagent_name'', ''product_name'', ''title'']"

text \<open>
  The summary branch.  \<open>Inr (Some t)\<close> is the early \<^verbatim>\<open>return title\<close>,
  \<open>Inr None\<close> is falling out of the branch, and \<open>Inl AttributeError\<close> is
  \<^verbatim>\<open>.lower()\<close> called on a truthy value that is not a string.
\<close>

definition summary_title :: "dict \<Rightarrow> py_error + string option" where
  "summary_title result =
     (case map_of result ''summary'' of
        Some (JObj summary) \<Rightarrow>
          (case map_of summary ''asset_name'' of
             None \<Rightarrow> Inr None
           | Some v \<Rightarrow>
               if \<not> truthy v then Inr None
               else (case v of
                       JStr s \<Rightarrow>
                         if lower s \<noteq> ''unknown'' then
                           (let name_value = strip s
                            in if name_value \<noteq> [] then Inr (Some name_value) else Inr None)
                         else Inr None
                     | _ \<Rightarrow> Inl AttributeError))
      | _ \<Rightarrow> Inr None)"

text \<open>The loop over the priority fields; the empty list is the loop running out.\<close>

fun scan_fields :: "dict \<Rightarrow> string list \<Rightarrow> py_error + string" where
  "scan_fields result [] = Inr ''Untitled Asset''"
| "scan_fields result (field # fields) =
     (case map_of result field of
        None \<Rightarrow> scan_fields result fields
      | Some v \<Rightarrow>
          if \<not> truthy v then scan_fields result fields
          else (case v of
                  JStr s \<Rightarrow>
                    if lower s \<noteq> ''unknown'' then
                      (let name_value = strip s
                       in if name_value \<noteq> [] \<and> \<not> lower name_value = ''unknown''
                          then Inr name_value
                          else scan_fields result fields)
                    else scan_fields result fields
                | _ \<Rightarrow> Inl AttributeError))"

definition title_of_dict :: "dict \<Rightarrow> py_error + string" where
  "title_of_dict result =
     (case summary_title result of
        Inl e \<Rightarrow> Inl e
      | Inr (Some t) \<Rightarrow> Inr t
      | Inr None \<Rightarrow> scan_fields result name_fields)"

text \<open>
  The function on any value \<^verbatim>\<open>json.loads\<close> can hand it.  On a list,
  \<^verbatim>\<open>field in result\<close> is membership and \<^verbatim>\<open>result[field]\<close> then raises
  \<^verbatim>\<open>TypeError\<close>; on a string it is the substring test, with the same
  \<^verbatim>\<open>TypeError\<close> on indexing; on \<^verbatim>\<open>None\<close>, a boolean or a number the
  \<^verbatim>\<open>in\<close> itself raises \<^verbatim>\<open>TypeError\<close>.
\<close>

fun update_asset_title_from_result :: "json \<Rightarrow> py_error + string" where
  "update_asset_title_from_result (JObj result) = title_of_dict result"
| "update_asset_title_from_result (JList xs) =
     (if \<exists>f \<in> set (''summary'' # name_fields). JStr f \<in> set xs
      then Inl TypeError else Inr ''Untitled Asset'')"
| "update_asset_title_from_result (JStr s) =
     (if \<exists>f \<in> set (''summary'' # name_fields). contains s f
      then Inl TypeError else Inr ''Untitled Asset'')"
| "update_asset_title_from_result _ = Inl TypeError"

text \<open>
  Vocabulary for stating what the derivation returns.  A name value is text or
  falsy when \<^verbatim>\<open>.lower()\<close> is never called on something that has no such
  method; \<open>summary_taken\<close> is the condition under which the summary branch
  returns.  \<open>spec_usable\<close> and \<open>spec_first_candidate\<close> are written from the
  description of the scan, not from the code: the first field, in the given
  order, whose trimmed value is not empty and does not read \<^verbatim>\<open>unknown\<close> in
  lower case, and \<^verbatim>\<open>Untitled Asset\<close> when there is none.
\<close>

definition text_or_falsy :: "json \<Rightarrow> bool" where
  "text_or_falsy v = (case v of JStr s \<Rightarrow> True | _ \<Rightarrow> \<not> truthy v)"

definition summary_asset_name :: "dict \<Rightarrow> json option" where
  "summary_asset_name result =
     (case map_of result ''summary'' of
        Some (JObj summary) \<Rightarrow> map_of summary ''asset_name''
      | _ \<Rightarrow> None)"

definition names_are_text :: "dict \<Rightarrow> bool" where
  "names_are_text result =
     ((case summary_asset_name result of None \<Rightarrow> True | Some v \<Rightarrow> text_or_falsy v) \<and>
      (\<forall>f \<in> set name_fields.
          case map_of result f of None \<Rightarrow> True | Some v \<Rightarrow> text_or_falsy v))"

definition summary_taken :: "dict \<Rightarrow> bool" where
  "summary_taken result =
     (case summary_asset_name result of
        Some (JStr s) \<Rightarrow> lower s \<noteq> ''unknown'' \<and> strip s \<noteq> []
      | _ \<Rightarrow> False)"

definition spec_usable :: "json \<Rightarrow> bool" where
  "spec_usable v =
     (case v of
        JStr s \<Rightarrow> strip s \<noteq> [] \<and> lower (strip s) \<noteq> ''unknown''
      | _ \<Rightarrow> False)"

definition spec_first_candidate :: "dict \<Rightarrow> string list \<Rightarrow> string" where
  "spec_first_candidate result fs =
     (case find (\<lambda>f. case map_of result f of Some v \<Rightarrow> spec_usable v | None \<Rightarrow> False) fs of
        Some f \<Rightarrow> (case map_of result f of Some (JStr s) \<Rightarrow> strip s | _ \<Rightarrow> [])
      | None \<Rightarrow> ''Untitled Asset'')"

section \<open>Response parsing (\<^verbatim>\<open>parse_llm_response\<close>)\<close>

text \<open>
  The argument is a string or an already structured mapping.  \<^verbatim>\<open>json.loads\<close>
  belongs to the Python library and is a parameter \<open>json_loads\<close> here:
  \<open>None\<close> is \<^verbatim>\<open>JSONDecodeError\<close>.
\<close>

datatype llm_response = Text string | Mapping dict

text \<open>The loop over the lines of the fallback, \<open>result\<close> being the dictionary built so far.\<close>

fun parse_lines :: "string list \<Rightarrow> dict \<Rightarrow> dict" where
  "parse_lines [] result = result"
| "parse_lines (line # lines) result =
     (if CHR '':'' \<in> set line then
        (let (key, val) = split_once CHR '':'' line;
             key = replace_char CHR '' '' CHR ''_'' (lower (strip key));
             val = strip val
         in parse_lines lines (AList.update key (JStr val) result))
      else parse_lines lines result)"

text \<open>Everything after the JSON attempt: the lines, the placeholder name, the template id.\<close>

definition line_fallback :: "string \<Rightarrow> int option \<Rightarrow> dict" where
  "line_fallback llm_response template_id =
     (let result = parse_lines (split_char (CHR 0x0A) (strip llm_response)) [];
          result = (if map_of result ''name'' = None \<and> map_of result ''asset_name'' = None
                    then AList.update ''asset_name'' (JStr ''Unnamed Asset'') result
                    else result)
      in (case template_id of
            None \<Rightarrow> result
          | Some t \<Rightarrow> if t \<noteq> 0 then AList.update ''template_id'' (JInt t) result else result))"

definition parse_llm_response ::
  "(string \<Rightarrow> json option) \<Rightarrow> llm_response \<Rightarrow> int option \<Rightarrow> json" where
  "parse_llm_response json_loads llm_response template_id =
     (case llm_response of
        Mapping d \<Rightarrow> JObj d
      | Text s \<Rightarrow>
          if startswith (strip s) ''{'' \<and> endswith (strip s) ''}'' then
            (case json_loads s of
               Some result \<Rightarrow> result
             | None \<Rightarrow> JObj (line_fallback s template_id))
          else JObj (line_fallback s template_id))"

section \<open>The provider client's own JSON extraction (\<^verbatim>\<open>AnthropicLLM.analyze_image\<close>)\<close>

text \<open>\<^verbatim>\<open>s.find(c)\<close> and \<^verbatim>\<open>s.rfind(c)\<close> for one character; \<open>None\<close> is Python's \<open>-1\<close>.\<close>

fun find_char :: "char \<Rightarrow> string \<Rightarrow> nat option" where
  "find_char c [] = None"
| "find_char c (x # xs) =
     (if x = c then Some 0 else map_option Suc (find_char c xs))"

definition rfind_char :: "char \<Rightarrow> string \<Rightarrow> nat option" where
  "rfind_char c s = map_option (\<lambda>i. length s - 1 - i) (find_char c (rev s))"

text \<open>The slice \<^verbatim>\<open>s[i:j]\<close> for indices that are not negative.\<close>

definition slice :: "string \<Rightarrow> nat \<Rightarrow> nat \<Rightarrow> string" where
  "slice s i j = drop i (take j s)"

text \<open>
  What the client does with the text \<open>content\<close> of the model's answer, after the
  HTTP exchange: the part of \<^verbatim>\<open>analyze_image\<close> from \<^verbatim>\<open>json_start = content.find('{')\<close>
  to its \<^verbatim>\<open>return\<close>s.
\<close>

definition analyze_image_content :: "(string \<Rightarrow> json option) \<Rightarrow> string \<Rightarrow> json" where
  "analyze_image_content json_loads content =
     (case (find_char CHR ''{'' content, rfind_char CHR ''}'' content) of
        (Some json_start, Some json_end) \<Rightarrow>
          (case json_loads (slice content json_start (json_end + 1)) of
             Some parsed_content \<Rightarrow> parsed_content
           | None \<Rightarrow> JObj [(''raw_text'', JStr content)])
      | _ \<Rightarrow> JObj [(''raw_text'', JStr content)])"

section \<open>Configuration store (\<^verbatim>\<open>ConfigManager.get_value\<close>, \<^verbatim>\<open>set_value\<close>)\<close>

text \<open>\<^verbatim>\<open>value[key]\<close> with a string key, on whatever \<open>value\<close> is.\<close>

fun subscript :: "json \<Rightarrow> string \<Rightarrow> py_error + json" where
  "subscript (JObj d) key = (case map_of d key of None \<Rightarrow> Inl KeyError | Some v \<Rightarrow> Inr v)"
| "subscript _ key = Inl TypeError"

fun get_path :: "json \<Rightarrow> string list \<Rightarrow> py_error + json" where
  "get_path v [] = Inr v"
| "get_path v (key # keys) =
     (case subscript v key of
        Inl e \<Rightarrow> Inl e
      | Inr v' \<Rightarrow> get_path v' keys)"

text \<open>\<^verbatim>\<open>except (KeyError, TypeError): return default\<close>; any other error would escape.\<close>

definition get_value :: "json \<Rightarrow> string \<Rightarrow> json \<Rightarrow> py_error + json" where
  "get_value config key_path dflt =
     (case get_path config (split_char CHR ''.'' key_path) of
        Inr v \<Rightarrow> Inr v
      | Inl KeyError \<Rightarrow> Inr dflt
      | Inl TypeError \<Rightarrow> Inr dflt
      | Inl e \<Rightarrow> Inl e)"

text \<open>
  The descent of \<^verbatim>\<open>set_value\<close> with the final assignment, on the dictionary
  \<open>d\<close> it has reached.  The source mutates the nested dictionaries in place;
  the model returns the updated dictionary.
\<close>

fun set_path :: "dict \<Rightarrow> string list \<Rightarrow> json \<Rightarrow> dict" where
  "set_path d [] v = d"
| "set_path d [key] v = AList.update key v d"
| "set_path d (key # k # keys) v =
     (let sub = (case map_of d key of Some (JObj s) \<Rightarrow> s | _ \<Rightarrow> [])
      in AList.update key (JObj (set_path sub (k # keys) v)) d)"

text \<open>
  \<open>saved\<close> is what \<^verbatim>\<open>save_config\<close> answers (the write of the file).  On a
  configuration that is not a dictionary the first assignment raises
  \<^verbatim>\<open>TypeError\<close>, which the function catches: nothing changes and it returns
  \<^verbatim>\<open>False\<close>.
\<close>

definition set_value :: "json \<Rightarrow> string \<Rightarrow> json \<Rightarrow> bool \<Rightarrow> json \<times> bool" where
  "set_value config key_path v saved =
     (case config of
        JObj d \<Rightarrow> (JObj (set_path d (split_char CHR ''.'' key_path) v), saved)
      | _ \<Rightarrow> (config, False))"

section \<open>Label rendering (\<^verbatim>\<open>QRCodeGenerator\<close>)\<close>

text \<open>\<^verbatim>\<open>str(n)\<close> for an integer: its decimal digits, with a minus sign when negative.\<close>

fun str_nat :: "nat \<Rightarrow> string" where
  "str_nat n = (if n < 10 then [digits ! n] else str_nat (n div 10) @ [digits ! (n mod 10)])"

declare str_nat.simps [simp del]

definition str_int :: "int \<Rightarrow> string" where
  "str_int i = (if i < 0 then CHR ''-'' # str_nat (nat (- i)) else str_nat (nat i))"

text \<open>\<^verbatim>\<open>s.split(sub)[0]\<close>: the text before the first occurrence of \<open>sub\<close>.\<close>

fun before_sub :: "string \<Rightarrow> string \<Rightarrow> string" where
  "before_sub [] sub = []"
| "before_sub (c # cs) sub =
     (if startswith (c # cs) sub then [] else c # before_sub cs sub)"

text \<open>
  The constructor computes \<^verbatim>\<open>self.base_url\<close> from the loaded configuration:
  \<^verbatim>\<open>config.get('elabftw', {}).get('api_url', '')\<close>, cut before \<^verbatim>\<open>/api/\<close>.
  A section that is not a dictionary has no \<^verbatim>\<open>get\<close>; an \<^verbatim>\<open>api_url\<close> that
  is a list or a dictionary is only searched by \<^verbatim>\<open>in\<close>, and has no
  \<^verbatim>\<open>split\<close> when the search succeeds.
\<close>

definition QRCodeGenerator_init :: "dict \<Rightarrow> py_error + string" where
  "QRCodeGenerator_init config =
     (case (case map_of config ''elabftw'' of None \<Rightarrow> JObj [] | Some e \<Rightarrow> e) of
        JObj elab \<Rightarrow>
          (case (case map_of elab ''api_url'' of None \<Rightarrow> JStr [] | Some u \<Rightarrow> u) of
             JStr api_url \<Rightarrow>
               Inr (if contains api_url ''/api/'' then before_sub api_url ''/api/''
                    else ''https://elab.local'')
           | JList xs \<Rightarrow>
               if JStr ''/api/'' \<in> set xs then Inl AttributeError else Inr ''https://elab.local''
           | JObj d \<Rightarrow>
               if ''/api/'' \<in> fst ` set d then Inl AttributeError else Inr ''https://elab.local''
           | _ \<Rightarrow> Inl TypeError)
      | _ \<Rightarrow> Inl AttributeError)"

text \<open>
  What a rendering puts into the image file and where the file goes.  The
  drawing itself is the imaging library's; the model keeps the text that is
  encoded in the code, the caption and the file.
\<close>

record label_image =
  qr_data :: "string option"
  caption :: string
  file_name :: string
  file_path :: string

text \<open>\<^verbatim>\<open>os.path.join(a, b)\<close> on POSIX paths.\<close>

definition path_join :: "string \<Rightarrow> string \<Rightarrow> string" where
  "path_join a b =
     (if startswith b ''/'' then b
      else if a = [] \<or> endswith a ''/'' then a @ b
      else a @ ''/'' @ b)"

text \<open>\<^verbatim>\<open>asset_info.get("title", dflt)\<close>.\<close>

definition title_or :: "dict \<Rightarrow> string \<Rightarrow> json" where
  "title_or asset_info dflt =
     (case map_of asset_info ''title'' of None \<Rightarrow> JStr dflt | Some t \<Rightarrow> t)"

text \<open>\<^verbatim>\<open>"".join(c for c in asset_name if c.isalnum() or c in "_ -")\<close>.\<close>

definition sanitize :: "string \<Rightarrow> string" where
  "sanitize asset_name = filter (\<lambda>c. isalnum c \<or> c \<in> set ''_ -'') asset_name"

definition ensure_png :: "string \<Rightarrow> string" where
  "ensure_png filename =
     (if \<not> endswith (lower filename) ''.png'' then filename @ ''.png'' else filename)"

text \<open>
  \<open>Inl\<close> is the function returning \<^verbatim>\<open>(False, message)\<close>.  A title that is not
  text is refused when the caption is measured.  The code, the drawing and the
  saving are the imaging library's and the file system's: \<open>imaging\<close> says
  whether they manage the label they are asked for, and any error of theirs
  is \<open>LibraryError\<close>.
\<close>

definition create_asset_qrcode ::
  "(label_image \<Rightarrow> bool) \<Rightarrow> string \<Rightarrow> string \<Rightarrow> int \<Rightarrow> dict \<Rightarrow> string option
     \<Rightarrow> py_error + label_image" where
  "create_asset_qrcode imaging url dir asset_id asset_info filename =
     (case title_or asset_info (''Asset #'' @ str_int asset_id) of
        JStr asset_title \<Rightarrow>
          (case (case filename of
                   Some f \<Rightarrow> Inr f
                 | None \<Rightarrow>
                     (case title_or asset_info (''asset_'' @ str_int asset_id) of
                        JStr asset_name \<Rightarrow>
                          Inr (sanitize asset_name @ ''_'' @ str_int asset_id @ ''.png'')
                      | _ \<Rightarrow> Inl TypeError)) of
             Inl e \<Rightarrow> Inl e
           | Inr f \<Rightarrow>
               (let img = \<lparr>qr_data = Some (url @ ''/database.php?mode=view&id='' @ str_int asset_id),
                           caption = asset_title,
                           file_name = ensure_png f,
                           file_path = path_join dir (ensure_png f)\<rparr>
                in if imaging img then Inr img else Inl LibraryError))
      | _ \<Rightarrow> Inl TypeError)"

text \<open>
  \<^verbatim>\<open>create_label\<close> has no use for \<^verbatim>\<open>self.base_url\<close>, so the model has no such
  argument; the fields of the record it also prints are drawing only.
\<close>

definition create_label ::
  "(label_image \<Rightarrow> bool) \<Rightarrow> string \<Rightarrow> int \<Rightarrow> dict \<Rightarrow> bool \<Rightarrow> string option
     \<Rightarrow> py_error + label_image" where
  "create_label imaging dir asset_id asset_info include_qrcode filename =
     (case title_or asset_info (''Asset #'' @ str_int asset_id) of
        JStr asset_title \<Rightarrow>
          (case (case filename of
                   Some f \<Rightarrow> Inr f
                 | None \<Rightarrow>
                     (case title_or asset_info (''asset_'' @ str_int asset_id) of
                        JStr asset_name \<Rightarrow>
                          Inr (sanitize asset_name @ ''_'' @ str_int asset_id @ ''_label.png'')
                      | _ \<Rightarrow> Inl TypeError)) of
             Inl e \<Rightarrow> Inl e
           | Inr f \<Rightarrow>
               (let img = \<lparr>qr_data =
                             (if include_qrcode
                              then Some (''https://elab.local/database.php?mode=view&id='' @
                                         str_int asset_id)
                              else None),
                           caption = asset_title,
                           file_name = ensure_png f,
                           file_path = path_join dir (ensure_png f)\<rparr>
                in if imaging img then Inr img else Inl LibraryError))
      | _ \<Rightarrow> Inl TypeError)"

section \<open>The workflow in the main window (\<^verbatim>\<open>MainWindow\<close>)\<close>

text \<open>The messages \<^verbatim>\<open>set_status\<close> is called with in the functions below.\<close>

datatype status_msg =
    PleaseAnalyzeFirst          \<comment> \<open>\<^verbatim>\<open>Please analyze the image first\<close>\<close>
  | SavingToElab                \<comment> \<open>\<^verbatim>\<open>Saving to elabFTW...\<close>\<close>
  | PleaseSelectTemplate        \<comment> \<open>\<^verbatim>\<open>Please select a template\<close>\<close>
  | InvalidJSON                 \<comment> \<open>\<^verbatim>\<open>The edited result contains invalid JSON. Please correct it before saving.\<close>\<close>
  | SavedToElab int             \<comment> \<open>\<^verbatim>\<open>Saved to elabFTW (ID: ...\<close>\<close>
  | FailedToSave                \<comment> \<open>\<^verbatim>\<open>Failed to save to elabFTW\<close>\<close>
  | ErrorSaving py_error        \<comment> \<open>\<^verbatim>\<open>Error saving to elabFTW: ...\<close>\<close>
  | PleaseSaveFirst             \<comment> \<open>\<^verbatim>\<open>Please save to elabFTW first\<close>\<close>
  | GeneratingQR                \<comment> \<open>\<^verbatim>\<open>Generating QR code...\<close>\<close>
  | FailedGetInfo               \<comment> \<open>\<^verbatim>\<open>Failed to get asset information\<close>\<close>
  | QRGenerated string          \<comment> \<open>\<^verbatim>\<open>QR code generated: ...\<close>\<close>
  | QRFailed py_error           \<comment> \<open>\<^verbatim>\<open>Failed to generate QR code: ...\<close>\<close>

text \<open>
  The fields of the window that the workflow reads and writes.  \<open>result_text\<close>
  is the content of the editable text field, \<open>template_combo\<close> the data of the
  selected template, \<open>status_log\<close> the messages shown so far (the newest
  last), and \<open>create_calls\<close> the calls made to
  \<^verbatim>\<open>elab_manager.create_asset_from_llm_data\<close> so far, with their arguments.
\<close>

record main_window =
  current_image_path :: "string option"
  current_llm_result :: "json option"
  current_asset_id :: "int option"
  result_text :: string
  template_combo :: "int option"
  status_log :: "status_msg list"
  create_calls :: "(int \<times> dict \<times> string option) list"

text \<open>
  The collaborators: the JSON library, the inventory answering a creation
  (\<open>None\<close> when no record was created) and a lookup, the imaging library,
  and the label renderer's base URL and output directory.
\<close>

record collaborators =
  json_loads :: "string \<Rightarrow> json option"
  create_item :: "int \<Rightarrow> dict \<Rightarrow> int option"
  get_item :: "int \<Rightarrow> dict option"
  imaging :: "label_image \<Rightarrow> bool"
  base_url :: string
  output_dir :: string

definition set_status :: "status_msg \<Rightarrow> main_window \<Rightarrow> main_window" where
  "set_status message w = w\<lparr>status_log := status_log w @ [message]\<rparr>"

text \<open>
  \<^verbatim>\<open>ElabManager.create_asset_from_llm_data\<close>: it always asks the inventory for a new
  item, \<open>create_item\<close> being the inventory's answer for the record made from
  \<open>llm_data\<close>, and hands the new id back unless it is falsy.
\<close>

definition create_asset_from_llm_data ::
  "(int \<Rightarrow> dict \<Rightarrow> int option) \<Rightarrow> int \<Rightarrow> dict \<Rightarrow> int option" where
  "create_asset_from_llm_data create_item' template_id llm_data =
     (case create_item' template_id llm_data of
        None \<Rightarrow> None
      | Some item_id \<Rightarrow> if item_id = 0 then None else Some item_id)"

text \<open>
  A \<^verbatim>\<open>JSONDecodeError\<close> is passed over in silence.  Otherwise the result is
  stored first and the title derived after; an error of the derivation is
  only written to the log file, and the title itself is not kept.
\<close>

definition on_result_text_changed :: "collaborators \<Rightarrow> main_window \<Rightarrow> main_window" where
  "on_result_text_changed env w =
     (case json_loads env (result_text w) of
        None \<Rightarrow> w
      | Some edited_result \<Rightarrow> w\<lparr>current_llm_result := Some edited_result\<rparr>)"

definition falsy_id :: "int option \<Rightarrow> bool" where
  "falsy_id x = (case x of None \<Rightarrow> True | Some i \<Rightarrow> i = 0)"

definition generate_qrcode :: "collaborators \<Rightarrow> main_window \<Rightarrow> main_window" where
  "generate_qrcode env w =
     (if falsy_id (current_asset_id w) then set_status PleaseSaveFirst w
      else
        (let w = set_status GeneratingQR w;
             asset_id = the (current_asset_id w)
         in (case get_item env asset_id of
               None \<Rightarrow> set_status FailedGetInfo w
             | Some asset_info \<Rightarrow>
                 if asset_info = [] then set_status FailedGetInfo w
                 else (case create_asset_qrcode (imaging env) (base_url env) (output_dir env)
                              asset_id asset_info None of
                         Inr img \<Rightarrow> set_status (QRGenerated (file_path img)) w
                       | Inl e \<Rightarrow> set_status (QRFailed e) w))))"

definition save_to_elabftw :: "collaborators \<Rightarrow> main_window \<Rightarrow> main_window" where
  "save_to_elabftw env w =
     (if (case current_llm_result w of None \<Rightarrow> True | Some r \<Rightarrow> \<not> truthy r)
      then set_status PleaseAnalyzeFirst w
      else
        (let w = set_status SavingToElab w
         in if falsy_id (template_combo w) then set_status PleaseSelectTemplate w
            else
              (let template_id = the (template_combo w)
               in (case json_loads env (result_text w) of
                     None \<Rightarrow> set_status InvalidJSON w
                   | Some edited_result \<Rightarrow>
                       (let w = w\<lparr>current_llm_result := Some edited_result\<rparr>
                        in (case update_asset_title_from_result edited_result of
                              Inl e \<Rightarrow> set_status (ErrorSaving e) w
                            | Inr title \<Rightarrow>
                                (case edited_result of
                                   JObj d \<Rightarrow>
                                     (let asset_data = AList.update ''title'' (JStr title) d;
                                          w = w\<lparr>create_calls := create_calls w @
                                                 [(template_id, asset_data, current_image_path w)]\<rparr>
                                      in (case create_asset_from_llm_data (create_item env)
                                                   template_id asset_data of
                                            Some asset_id \<Rightarrow>
                                              generate_qrcode env
                                                (set_status (SavedToElab asset_id)
                                                   (w\<lparr>current_asset_id := Some asset_id\<rparr>))
                                          | None \<Rightarrow> set_status FailedToSave w))
                                 | JList xs \<Rightarrow> set_status (ErrorSaving TypeError) w
                                 | _ \<Rightarrow> set_status (ErrorSaving AttributeError) w)))))))"

section \<open>Facts about strings\<close>

lemma case_tables_length: "length uppercase = length lowercase"
  by (simp add: uppercase_def lowercase_def ascii_uppercase_def ascii_lowercase_def
        latin1_uppercase_def latin1_lowercase_def)

lemma upper_of_table:
  "map_of (zip uppercase lowercase) c = Some d \<Longrightarrow> c \<in> set uppercase"
  using map_of_zip_is_Some[OF case_tables_length, of c] by auto

lemma isspace_not_upper: "isspace c \<Longrightarrow> c \<notin> set uppercase"
  unfolding isspace_def whitespace_chars_def uppercase_def ascii_uppercase_def
    latin1_uppercase_def
  by (elim disjE | simp)+

lemma isspace_lower_char: "isspace c \<Longrightarrow> lower_char c = c"
  using upper_of_table isspace_not_upper
  by (fastforce simp: lower_char_def split: option.splits)

text \<open>
  The tables at work beyond ASCII: the no-break space and the next-line
  control are trimmed, an accented capital has a lower-case form, and an
  accented letter is alphanumeric where the multiplication sign is not.
\<close>

lemma strip_upper_half: "strip (CHR 0xA0 # ''Beaker'' @ [CHR 0x85]) = ''Beaker''"
  by code_simp

lemma lower_upper_half: "lower [CHR 0xC9, CHR 0xD7, CHR 0xDF] = [CHR 0xE9, CHR 0xD7, CHR 0xDF]"
  by code_simp

lemma isalnum_upper_half: "isalnum (CHR 0xE9) \<and> isalnum (CHR 0xB5) \<and> \<not> isalnum (CHR 0xD7)"
  by code_simp

lemma unknown_no_space: "c \<in> set ''unknown'' \<Longrightarrow> \<not> isspace c"
  unfolding isspace_def whitespace_chars_def by (elim disjE | simp)+

lemma lower_unknown_no_space:
  assumes "lower s = ''unknown''" and "c \<in> set s"
  shows "\<not> isspace c"
proof
  assume sp: "isspace c"
  have "lower_char c \<in> set (lower s)"
    using assms(2) by (simp add: lower_def)
  then have "c \<in> set ''unknown''"
    using isspace_lower_char[OF sp] assms(1) by simp
  then show False
    using sp unknown_no_space by blast
qed

lemma dropWhile_none: "\<forall>c \<in> set s. \<not> P c \<Longrightarrow> dropWhile P s = s"
  by (cases s) auto

lemma strip_no_space: "\<forall>c \<in> set s. \<not> isspace c \<Longrightarrow> strip s = s"
  by (simp add: strip_def lstrip_def rstrip_def dropWhile_none)

lemma lower_strip_unknown: "lower s = ''unknown'' \<Longrightarrow> lower (strip s) = ''unknown''"
  using lower_unknown_no_space strip_no_space by metis

lemma strip_Nil [simp]: "strip [] = []"
  by (simp add: strip_def lstrip_def rstrip_def)

section \<open>Title derivation\<close>

lemma summary_title_usable:
  assumes "map_of result ''summary'' = Some (JObj summary)"
      and "map_of summary ''asset_name'' = Some (JStr s)"
      and "strip s \<noteq> []" and "lower (strip s) \<noteq> ''unknown''"
  shows "summary_title result = Inr (Some (strip s))"
proof -
  have "s \<noteq> []" using assms(3) by auto
  moreover have "lower s \<noteq> ''unknown''" using assms(4) lower_strip_unknown by blast
  ultimately show ?thesis using assms by (simp add: summary_title_def)
qed

text \<open>
  C1, as the code has it.  When the mapping holds an object under \<^verbatim>\<open>summary\<close>
  whose \<^verbatim>\<open>asset_name\<close> is a string that is not empty once trimmed and whose
  trimmed form does not read \<^verbatim>\<open>unknown\<close> in lower case, the derived title is
  that string trimmed, whatever else the mapping holds.
\<close>

theorem summary_asset_name_wins:
  assumes "map_of result ''summary'' = Some (JObj summary)"
      and "map_of summary ''asset_name'' = Some (JStr s)"
      and "strip s \<noteq> []" and "lower (strip s) \<noteq> ''unknown''"
  shows "update_asset_title_from_result (JObj result) = Inr (strip s)"
  using summary_title_usable[OF assms] by (simp add: title_of_dict_def)

theorem summary_asset_name_wins_witness:
  "update_asset_title_from_result
     (JObj [(''summary'', JObj [(''asset_name'', JStr '' Sodium Chloride '')]),
            (''purity'', JStr ''99%''), (''name'', JStr ''Salt'')])
   = Inr ''Sodium Chloride'' \<and>
   update_asset_title_from_result
     (JObj [(''summary'', JObj [(''asset_name'', JStr (CHR 0xA0 # ''Ethanol''))]),
            (''name'', JStr ''Salt'')])
   = Inr ''Ethanol''"
proof -
  have s: "strip '' Sodium Chloride '' = ''Sodium Chloride''"
    by code_simp
  have l: "lower ''Sodium Chloride'' \<noteq> ''unknown''"
    by code_simp
  have s': "strip (CHR 0xA0 # ''Ethanol'') = ''Ethanol''"
    by code_simp
  have l': "lower ''Ethanol'' \<noteq> ''unknown''"
    by code_simp
  show ?thesis
    using summary_asset_name_wins
            [of "[(''summary'', JObj [(''asset_name'', JStr '' Sodium Chloride '')]),
                  (''purity'', JStr ''99%''), (''name'', JStr ''Salt'')]"
                "[(''asset_name'', JStr '' Sodium Chloride '')]" "'' Sodium Chloride ''"]
          summary_asset_name_wins
            [of "[(''summary'', JObj [(''asset_name'', JStr (CHR 0xA0 # ''Ethanol''))]),
                  (''name'', JStr ''Salt'')]"
                "[(''asset_name'', JStr (CHR 0xA0 # ''Ethanol''))]" "CHR 0xA0 # ''Ethanol''"]
          s l s' l'
    by simp
qed

text \<open>
  C1 as it is written fails.  The name \<^verbatim>\<open>Unknown\<close> is present, not empty and
  not the string \<^verbatim>\<open>unknown\<close>, trimmed or not, yet the title is taken from
  the \<^verbatim>\<open>name\<close> field: the comparison is made on the lower-cased value.  And
  it is made before trimming: a summary name that reads \<^verbatim>\<open>unknown\<close> only once
  trimmed becomes the title.
\<close>

theorem summary_asset_name_counterexample:
  "strip ''Unknown'' \<noteq> ''unknown'' \<and>
   update_asset_title_from_result
     (JObj [(''summary'', JObj [(''asset_name'', JStr ''Unknown'')]),
            (''name'', JStr ''Beaker'')])
   = Inr ''Beaker'' \<and>
   strip '' unknown '' = ''unknown'' \<and>
   update_asset_title_from_result
     (JObj [(''summary'', JObj [(''asset_name'', JStr '' unknown '')]),
            (''name'', JStr ''Beaker'')])
   = Inr ''unknown''"
  by code_simp

lemma scan_fields_text:
  assumes "\<forall>f \<in> set fs. case map_of result f of None \<Rightarrow> True | Some v \<Rightarrow> text_or_falsy v"
  shows "scan_fields result fs = Inr (spec_first_candidate result fs)"
  using assms
proof (induction fs)
  case Nil
  show ?case by (simp add: spec_first_candidate_def)
next
  case (Cons f fs)
  then have ih: "scan_fields result fs = Inr (spec_first_candidate result fs)" by simp
  show ?case
  proof (cases "map_of result f")
    case None
    then show ?thesis using ih by (simp add: spec_first_candidate_def)
  next
    case (Some v)
    with Cons.prems have tf: "text_or_falsy v" by simp
    show ?thesis
    proof (cases v)
      case (JStr s)
      show ?thesis
      proof (cases "spec_usable v")
        case True
        then have "strip s \<noteq> []" "lower (strip s) \<noteq> ''unknown''"
          using JStr by (simp_all add: spec_usable_def)
        moreover from this have "s \<noteq> []" "lower s \<noteq> ''unknown''"
          using lower_strip_unknown by auto
        ultimately show ?thesis
          using Some JStr True by (simp add: spec_first_candidate_def)
      next
        case False
        then have "strip s = [] \<or> lower (strip s) = ''unknown''"
          using JStr by (simp add: spec_usable_def)
        then show ?thesis
          using Some JStr False ih by (auto simp: spec_first_candidate_def)
      qed
    qed (use Some tf ih in \<open>auto simp: text_or_falsy_def spec_first_candidate_def spec_usable_def\<close>)
  qed
qed

lemma spec_first_candidate_nonempty: "spec_first_candidate result fs \<noteq> []"
proof (cases "find (\<lambda>f. case map_of result f of Some v \<Rightarrow> spec_usable v | None \<Rightarrow> False) fs")
  case None
  then show ?thesis by (simp add: spec_first_candidate_def)
next
  case (Some f)
  then have "case map_of result f of Some v \<Rightarrow> spec_usable v | None \<Rightarrow> False"
    by (auto simp: find_Some_iff)
  then show ?thesis using Some
    by (auto simp: spec_first_candidate_def spec_usable_def split: option.splits json.splits)
qed

lemma summary_title_text:
  assumes "case summary_asset_name result of None \<Rightarrow> True | Some v \<Rightarrow> text_or_falsy v"
  shows "summary_title result =
           Inr (if summary_taken result
                then (case summary_asset_name result of
                        Some (JStr s) \<Rightarrow> Some (strip s)
                      | _ \<Rightarrow> None)
                else None)"
  using assms
  by (auto simp: summary_title_def summary_asset_name_def summary_taken_def text_or_falsy_def
           split: option.splits json.splits)

text \<open>
  C2, as the code has it.  On a mapping whose name values are text (or falsy)
  the derivation returns a title, and the title is never empty.  When the
  summary branch does not return, the title is the first candidate of the scan
  over \<^const>\<open>name_fields\<close> in their order, and \<^verbatim>\<open>Untitled Asset\<close> when there is
  no candidate.
\<close>

theorem title_never_empty:
  assumes "names_are_text result"
  shows "\<exists>t. update_asset_title_from_result (JObj result) = Inr t \<and> t \<noteq> [] \<and>
             (\<not> summary_taken result \<longrightarrow> t = spec_first_candidate result name_fields)"
proof (cases "summary_taken result")
  case True
  then obtain s where s: "summary_asset_name result = Some (JStr s)" "strip s \<noteq> []"
    by (auto simp: summary_taken_def split: option.splits json.splits)
  have "summary_title result = Inr (Some (strip s))"
    using summary_title_text[of result] assms True s by (simp add: names_are_text_def)
  then show ?thesis using True s by (simp add: title_of_dict_def)
next
  case False
  have "summary_title result = Inr None"
    using summary_title_text[of result] assms False by (simp add: names_are_text_def)
  moreover have "scan_fields result name_fields = Inr (spec_first_candidate result name_fields)"
    using assms by (intro scan_fields_text) (simp add: names_are_text_def)
  ultimately show ?thesis
    using False spec_first_candidate_nonempty by (simp add: title_of_dict_def)
qed

theorem title_never_empty_witness:
  "names_are_text [(''name'', JStr ''Unknown''), (''chemical_name'', JStr '' Ethanol '')] \<and>
   update_asset_title_from_result
     (JObj [(''name'', JStr ''Unknown''), (''chemical_name'', JStr '' Ethanol '')])
   = Inr ''Ethanol'' \<and>
   names_are_text [(''volume'', JStr ''500ml'')] \<and>
   update_asset_title_from_result (JObj [(''volume'', JStr ''500ml'')]) = Inr ''Untitled Asset'' \<and>
   names_are_text [(''name'', JStr [CHR 0xA0]), (''title'', JStr ''Beaker'')] \<and>
   update_asset_title_from_result
     (JObj [(''name'', JStr [CHR 0xA0]), (''title'', JStr ''Beaker'')]) = Inr ''Beaker''"
proof -
  let ?r = "[(''name'', JStr ''Unknown''), (''chemical_name'', JStr '' Ethanol '')]"
  let ?q = "[(''volume'', JStr ''500ml'')]"
  let ?p = "[(''name'', JStr [CHR 0xA0]), (''title'', JStr ''Beaker'')]"
  have r: "names_are_text ?r" by code_simp
  have q: "names_are_text ?q" by code_simp
  have p: "names_are_text ?p" by code_simp
  have nr: "\<not> summary_taken ?r" by code_simp
  have nq: "\<not> summary_taken ?q" by code_simp
  have np: "\<not> summary_taken ?p" by code_simp
  have cr: "spec_first_candidate ?r name_fields = ''Ethanol''" by code_simp
  have cq: "spec_first_candidate ?q name_fields = ''Untitled Asset''" by code_simp
  have cp: "spec_first_candidate ?p name_fields = ''Beaker''" by code_simp
  show ?thesis
    using title_never_empty[OF r] title_never_empty[OF q] title_never_empty[OF p]
          r q p nr nq np cr cq cp
    by auto
qed

text \<open>
  C2 as it is written fails: not every mapping gets a title.  A name field
  holding a list makes the derivation raise \<^verbatim>\<open>AttributeError\<close>.
\<close>

theorem title_never_empty_counterexample:
  "update_asset_title_from_result
     (JObj [(''name'', JList [JStr ''Beaker'', JStr ''500 ml''])]) = Inl AttributeError"
  by code_simp

section \<open>Response parsing\<close>

lemma parse_lines_text:
  assumes "\<And>k v. map_of result k = Some v \<Longrightarrow> \<exists>s. v = JStr s"
      and "map_of (parse_lines ls result) k = Some v"
  shows "\<exists>s. v = JStr s"
  using assms
proof (induction ls arbitrary: result)
  case Nil
  then show ?case by simp
next
  case (Cons l ls)
  show ?case
  proof (cases "CHR '':'' \<in> set l")
    case False
    then have "map_of (parse_lines ls result) k = Some v"
      using Cons.prems(2) by simp
    then show ?thesis
      using Cons.IH[of result] Cons.prems(1) by blast
  next
    case True
    obtain key val where kv: "split_once CHR '':'' l = (key, val)"
      by (cases "split_once CHR '':'' l")
    let ?k = "replace_char CHR '' '' CHR ''_'' (lower (strip key))"
    let ?r = "AList.update ?k (JStr (strip val)) result"
    have step: "parse_lines (l # ls) result = parse_lines ls ?r"
      using True kv by simp
    have "\<And>k v. map_of ?r k = Some v \<Longrightarrow> \<exists>s. v = JStr s"
      using Cons.prems(1) by (auto simp: update_conv' split: if_splits)
    then show ?thesis
      using Cons.IH[of ?r] Cons.prems(2) step by simp
  qed
qed

lemma parse_lines_summary:
  "map_of (parse_lines ls []) ''summary'' = None \<or>
   (\<exists>s. map_of (parse_lines ls []) ''summary'' = Some (JStr s))"
  using parse_lines_text[of "[]" ls "''summary''"]
  by (cases "map_of (parse_lines ls []) ''summary''") auto

lemma unnamed_asset_text:
  "lower ''Unnamed Asset'' \<noteq> ''unknown''" "strip ''Unnamed Asset'' = ''Unnamed Asset''"
  by code_simp+

lemma title_of_placeholder:
  assumes "map_of r ''summary'' = None \<or> (\<exists>s. map_of r ''summary'' = Some (JStr s))"
      and "map_of r ''name'' = None"
      and "map_of r ''asset_name'' = Some (JStr ''Unnamed Asset'')"
  shows "update_asset_title_from_result (JObj r) = Inr ''Unnamed Asset''"
proof -
  have "summary_title r = Inr None"
    using assms(1) by (auto simp: summary_title_def)
  moreover have "scan_fields r name_fields = Inr ''Unnamed Asset''"
    using assms(2,3) unnamed_asset_text by (simp add: name_fields_def)
  ultimately show ?thesis
    by (simp add: title_of_dict_def)
qed

text \<open>A key is trimmed of the no-break space like of any other whitespace.\<close>

lemma parse_lines_upper_half:
  "parse_llm_response Map.empty
     (Text (''Volume: 1'' @ [CHR 0x0A, CHR 0xA0] @ ''name: Beaker'')) None
   = JObj [(''volume'', JStr ''1''), (''name'', JStr ''Beaker'')]"
  by code_simp

lemma line_fallback_absent:
  assumes "map_of (parse_lines (split_char (CHR 0x0A) (strip s)) []) ''name'' = None"
      and "map_of (parse_lines (split_char (CHR 0x0A) (strip s)) []) ''asset_name'' = None"
  shows "line_fallback s template_id =
           (if template_id = None \<or> template_id = Some 0
            then AList.update ''asset_name'' (JStr ''Unnamed Asset'')
                   (parse_lines (split_char (CHR 0x0A) (strip s)) [])
            else AList.update ''template_id'' (JInt (the template_id))
                   (AList.update ''asset_name'' (JStr ''Unnamed Asset'')
                      (parse_lines (split_char (CHR 0x0A) (strip s)) [])))"
  unfolding line_fallback_def Let_def using assms
  by (cases template_id) simp_all

lemma line_fallback_keys:
  assumes "map_of (parse_lines (split_char (CHR 0x0A) (strip s)) []) ''name'' = None"
      and "map_of (parse_lines (split_char (CHR 0x0A) (strip s)) []) ''asset_name'' = None"
  shows "map_of (line_fallback s template_id) ''summary''
           = map_of (parse_lines (split_char (CHR 0x0A) (strip s)) []) ''summary''"
    and "map_of (line_fallback s template_id) ''name'' = None"
    and "map_of (line_fallback s template_id) ''asset_name'' = Some (JStr ''Unnamed Asset'')"
  unfolding line_fallback_absent[OF assms] using assms
  by (simp_all add: update_conv')

lemma line_fallback_placeholder:
  assumes "map_of (parse_lines (split_char (CHR 0x0A) (strip s)) []) ''name'' = None"
      and "map_of (parse_lines (split_char (CHR 0x0A) (strip s)) []) ''asset_name'' = None"
  shows "map_of (line_fallback s template_id) ''asset_name'' = Some (JStr ''Unnamed Asset'') \<and>
         update_asset_title_from_result (JObj (line_fallback s template_id))
           = Inr ''Unnamed Asset''"
proof -
  note keys = line_fallback_keys[OF assms, of template_id]
  have "map_of (line_fallback s template_id) ''summary'' = None \<or>
        (\<exists>t. map_of (line_fallback s template_id) ''summary'' = Some (JStr t))"
    unfolding keys(1) by (rule parse_lines_summary)
  then have "update_asset_title_from_result (JObj (line_fallback s template_id))
               = Inr ''Unnamed Asset''"
    using keys(2,3) by (rule title_of_placeholder)
  then show ?thesis
    using keys(3) by simp
qed

text \<open>
  C3, as the code has it.  When the response goes through the line-oriented
  fallback and the lines give neither a \<^verbatim>\<open>name\<close> nor an \<^verbatim>\<open>asset_name\<close> key,
  the parser adds \<^verbatim>\<open>asset_name\<close> with the value \<^verbatim>\<open>Unnamed Asset\<close>, and the
  title derived from the resulting mapping is that placeholder.
\<close>

theorem placeholder_is_the_title:
  assumes "\<not> (startswith (strip s) ''{'' \<and> endswith (strip s) ''}'' \<and> loads s \<noteq> None)"
      and "map_of (parse_lines (split_char (CHR 0x0A) (strip s)) []) ''name'' = None"
      and "map_of (parse_lines (split_char (CHR 0x0A) (strip s)) []) ''asset_name'' = None"
  shows "\<exists>r. parse_llm_response loads (Text s) template_id = JObj r \<and>
             map_of r ''asset_name'' = Some (JStr ''Unnamed Asset'') \<and>
             update_asset_title_from_result (JObj r) = Inr ''Unnamed Asset''"
proof -
  have "parse_llm_response loads (Text s) template_id = JObj (line_fallback s template_id)"
    using assms(1) by (auto simp: parse_llm_response_def split: option.splits)
  then show ?thesis
    using line_fallback_placeholder[OF assms(2,3)] by simp
qed

theorem placeholder_is_the_title_witness:
  "parse_llm_response Map.empty (Text ''Volume: 500ml'') (Some 3)
     = JObj [(''volume'', JStr ''500ml''), (''asset_name'', JStr ''Unnamed Asset''),
             (''template_id'', JInt 3)] \<and>
   update_asset_title_from_result
     (JObj [(''volume'', JStr ''500ml''), (''asset_name'', JStr ''Unnamed Asset''),
            (''template_id'', JInt 3)])
     = Inr ''Unnamed Asset''"
proof -
  have a: "\<not> (startswith (strip ''Volume: 500ml'') ''{'' \<and>
              endswith (strip ''Volume: 500ml'') ''}'' \<and>
              (Map.empty :: string \<Rightarrow> json option) ''Volume: 500ml'' \<noteq> None)"
    by simp
  have b: "map_of (parse_lines (split_char (CHR 0x0A) (strip ''Volume: 500ml'')) []) ''name''
             = None"
    by code_simp
  have c: "map_of (parse_lines (split_char (CHR 0x0A) (strip ''Volume: 500ml'')) [])
             ''asset_name'' = None"
    by code_simp
  have d: "parse_llm_response Map.empty (Text ''Volume: 500ml'') (Some 3)
             = JObj [(''volume'', JStr ''500ml''), (''asset_name'', JStr ''Unnamed Asset''),
                     (''template_id'', JInt 3)]"
    by code_simp
  show ?thesis
    using placeholder_is_the_title[OF a b c, of "Some 3"] d by auto
qed

text \<open>
  C3 as it is written fails: the title derived from the parser's result is
  the placeholder \<^verbatim>\<open>Unnamed Asset\<close>, not \<^verbatim>\<open>Untitled Asset\<close>.
\<close>

theorem placeholder_counterexample:
  "parse_llm_response Map.empty (Text ''Volume: 500ml'') None
     = JObj [(''volume'', JStr ''500ml''), (''asset_name'', JStr ''Unnamed Asset'')] \<and>
   update_asset_title_from_result
     (parse_llm_response Map.empty (Text ''Volume: 500ml'') None) = Inr ''Unnamed Asset'' \<and>
   update_asset_title_from_result
     (parse_llm_response Map.empty (Text ''Volume: 500ml'') None) \<noteq> Inr ''Untitled Asset''"
  by code_simp

section \<open>JSON between braces\<close>

lemma find_char_first:
  "find_char c s = Some i \<Longrightarrow> i < length s \<and> s ! i = c \<and> (\<forall>k<i. s ! k \<noteq> c)"
proof (induction s arbitrary: i)
  case Nil
  then show ?case by simp
next
  case (Cons x xs)
  show ?case
  proof (cases "x = c")
    case True
    with Cons.prems show ?thesis by simp
  next
    case False
    with Cons.prems obtain i' where i': "find_char c xs = Some i'" "i = Suc i'"
      by auto
    from Cons.IH[OF i'(1)] False i'(2) show ?thesis
      by (auto simp: nth_Cons split: nat.splits)
  qed
qed

lemma rfind_char_last:
  assumes "rfind_char c s = Some j"
  shows "j < length s \<and> s ! j = c \<and> (\<forall>k. j < k \<and> k < length s \<longrightarrow> s ! k \<noteq> c)"
proof -
  from assms obtain i where i: "find_char c (rev s) = Some i" "j = length s - 1 - i"
    by (auto simp: rfind_char_def)
  from find_char_first[OF i(1)]
  have il: "i < length s" and ic: "rev s ! i = c" and ib: "\<forall>k<i. rev s ! k \<noteq> c"
    by simp_all
  have jl: "j < length s" using il i(2) by simp
  have "s ! j = c"
    using ic il i(2) by (simp add: rev_nth)
  moreover have "s ! k \<noteq> c" if "j < k" "k < length s" for k
  proof -
    have "length s - 1 - k < i" using that i(2) il by simp
    then have "rev s ! (length s - 1 - k) \<noteq> c" using ib by blast
    moreover have "rev s ! (length s - 1 - k) = s ! k"
      using that by (simp add: rev_nth)
    ultimately show ?thesis by simp
  qed
  ultimately show ?thesis using jl by blast
qed

lemma not_space_braces: "\<not> isspace CHR ''{''" "\<not> isspace CHR ''}''"
  by (simp_all add: isspace_def whitespace_chars_def)

lemma strip_braced:
  assumes "startswith t ''{''" and "endswith t ''}''"
  shows "strip t = t"
proof -
  from assms(1) obtain t' where t: "t = CHR ''{'' # t'"
    by (cases t) (auto simp: startswith_def)
  then have l: "lstrip t = t"
    by (simp add: lstrip_def not_space_braces)
  from assms(2) have ne: "t \<noteq> []" and "drop (length t - 1) t = ''}''"
    by (auto simp: endswith_def)
  then have "last t = CHR ''}''"
    by (metis last_drop last.simps diff_less length_greater_0_conv zero_less_one)
  with ne obtain b where b: "t = b @ ''}''"
    by (metis append_butlast_last_id)
  have "rstrip (b @ ''}'') = b @ ''}''"
    by (simp add: rstrip_def not_space_braces)
  with l b show ?thesis by (simp add: strip_def)
qed

text \<open>
  C5, as the code has it.  The text between the first \<^verbatim>\<open>{\<close> and the last
  \<^verbatim>\<open>}\<close> is parsed by the provider client, before the response parser is
  reached: when that text is a JSON object the client returns it, and the
  response parser hands a mapping back as it is.  The response parser itself
  does not look for braces: a text that does not both start with \<^verbatim>\<open>{\<close> and end
  with \<^verbatim>\<open>}\<close> once trimmed goes to the line-oriented extraction.
\<close>

theorem braces_are_cut_by_the_client:
  assumes "find_char CHR ''{'' content = Some i"
      and "rfind_char CHR ''}'' content = Some j"
      and "loads (slice content i (j + 1)) = Some (JObj d)"
  shows "analyze_image_content loads content = JObj d \<and>
         parse_llm_response loads (Mapping d) template_id = JObj d \<and>
         (\<not> (startswith (strip content) ''{'' \<and> endswith (strip content) ''}'') \<longrightarrow>
            parse_llm_response loads (Text content) template_id
              = JObj (line_fallback content template_id)) \<and>
         content ! i = CHR ''{'' \<and> (\<forall>k<i. content ! k \<noteq> CHR ''{'') \<and>
         content ! j = CHR ''}'' \<and>
         (\<forall>k. j < k \<and> k < length content \<longrightarrow> content ! k \<noteq> CHR ''}'')"
  using assms find_char_first[OF assms(1)] rfind_char_last[OF assms(2)]
  by (simp add: analyze_image_content_def parse_llm_response_def)

theorem braces_are_cut_by_the_client_witness:
  \<open>analyze_image_content [''{"name": "Beaker"}'' \<mapsto> JObj [(''name'', JStr ''Beaker'')]]
     ''Result {"name": "Beaker"} done''
   = JObj [(''name'', JStr ''Beaker'')] \<and>
   parse_llm_response [''{"name": "Beaker"}'' \<mapsto> JObj [(''name'', JStr ''Beaker'')]]
     (Mapping [(''name'', JStr ''Beaker'')]) None
   = JObj [(''name'', JStr ''Beaker'')] \<and>
   parse_llm_response [''{"name": "Beaker"}'' \<mapsto> JObj [(''name'', JStr ''Beaker'')]]
     (Text ''Result {"name": "Beaker"} done'') None
   = JObj (line_fallback ''Result {"name": "Beaker"} done'' None)\<close>
proof -
  let ?c = \<open>''Result {"name": "Beaker"} done''\<close>
  let ?l = \<open>[''{"name": "Beaker"}'' \<mapsto> JObj [(''name'', JStr ''Beaker'')]]\<close>
  have i: "find_char CHR ''{'' ?c = Some 7"
    by code_simp
  have j: "rfind_char CHR ''}'' ?c = Some 24"
    by code_simp
  have \<open>slice ?c 7 (24 + 1) = ''{"name": "Beaker"}''\<close>
    by code_simp
  then have l: "?l (slice ?c 7 (24 + 1)) = Some (JObj [(''name'', JStr ''Beaker'')])"
    by simp
  have n: "\<not> (startswith (strip ?c) ''{'' \<and> endswith (strip ?c) ''}'')"
    by code_simp
  show ?thesis
    using braces_are_cut_by_the_client
            [where loads = ?l and content = ?c and i = 7 and j = 24
               and d = "[(''name'', JStr ''Beaker'')]" and template_id = None, OF i j l]
          n
    by blast
qed

text \<open>
  C5 as it is written fails for the response parser: the text between the
  first \<^verbatim>\<open>{\<close> and the last \<^verbatim>\<open>}\<close> is a JSON object, and the parser returns the
  outcome of the line-oriented extraction instead of that object.
\<close>

theorem braces_counterexample:
  \<open>slice ''Result {"name": "Beaker"} done'' 7 25 = ''{"name": "Beaker"}'' \<and>
   parse_llm_response [''{"name": "Beaker"}'' \<mapsto> JObj [(''name'', JStr ''Beaker'')]]
     (Text ''Result {"name": "Beaker"} done'') None
   = JObj [(''result_{"name"'', JStr ''"Beaker"} done''),
           (''asset_name'', JStr ''Unnamed Asset'')]\<close>
  by code_simp

text \<open>
  C6.  Let \<open>dumps\<close> be the serialisation and \<open>loads\<close> the strict parse of the
  JSON library, with what the library promises of them: a mapping is
  written between braces, and parsing its serialisation gives it back.  Then
  the response parser returns the mapping itself for its serialisation: no
  placeholder is added and no field is touched, with or without a template id.
\<close>

theorem parse_of_serialisation:
  assumes "loads (dumps (JObj x)) = Some (JObj x)"
      and "startswith (dumps (JObj x)) ''{''"
      and "endswith (dumps (JObj x)) ''}''"
  shows "parse_llm_response loads (Text (dumps (JObj x))) template_id = JObj x"
  using assms strip_braced[OF assms(2,3)] by (simp add: parse_llm_response_def)

theorem parse_of_serialisation_witness:
  \<open>parse_llm_response [''{"name": "Beaker"}'' \<mapsto> JObj [(''name'', JStr ''Beaker'')]]
     (Text ''{"name": "Beaker"}'') None
   = JObj [(''name'', JStr ''Beaker'')]\<close>
proof -
  let ?l = \<open>[''{"name": "Beaker"}'' \<mapsto> JObj [(''name'', JStr ''Beaker'')]]\<close>
  let ?d = \<open>\<lambda>v :: json. ''{"name": "Beaker"}''\<close>
  have a: "?l (?d (JObj [(''name'', JStr ''Beaker'')])) = Some (JObj [(''name'', JStr ''Beaker'')])"
    by simp
  have b: "startswith (?d (JObj [(''name'', JStr ''Beaker'')])) ''{''"
    by (simp add: startswith_def)
  have c: "endswith (?d (JObj [(''name'', JStr ''Beaker'')])) ''}''"
    by (simp add: endswith_def)
  show ?thesis
    using parse_of_serialisation[of ?l ?d "[(''name'', JStr ''Beaker'')]" None, OF a b c]
    by simp
qed

section \<open>Configuration store\<close>

lemma split_char_nonempty: "split_char c s \<noteq> []"
  by (induction s) (auto split: list.splits)

lemma subscript_update: "subscript (JObj (AList.update key v d)) key = Inr v"
  by (simp add: update_conv')

lemma get_set_path:
  "keys \<noteq> [] \<Longrightarrow> get_path (JObj (set_path d keys v)) keys = Inr v"
proof (induction d keys v rule: set_path.induct)
  case (1 d v)
  then show ?case by simp
next
  case (2 d key v)
  show ?case by (simp add: update_conv')
next
  case (3 d key k keys v)
  let ?sub = "case map_of d key of Some (JObj s) \<Rightarrow> s | _ \<Rightarrow> []"
  have "get_path (JObj (set_path ?sub (k # keys) v)) (k # keys) = Inr v"
    using 3 by simp
  then show ?case
    by (simp add: Let_def update_conv' del: set_path.simps(3))
       (simp add: Let_def update_conv')
qed

lemma prefix_is_object:
  "n < length keys \<Longrightarrow> \<exists>obj. get_path (JObj (set_path d keys v)) (take n keys) = Inr (JObj obj)"
proof (induction d keys v arbitrary: n rule: set_path.induct)
  case (1 d v)
  then show ?case by simp
next
  case (2 d key v)
  then show ?case by simp
next
  case (3 d key k keys v)
  let ?sub = "case map_of d key of Some (JObj s) \<Rightarrow> s | _ \<Rightarrow> []"
  show ?case
  proof (cases n)
    case 0
    then show ?thesis by simp
  next
    case (Suc m)
    with 3(2) have "m < length (k # keys)" by simp
    then obtain obj where
      "get_path (JObj (set_path ?sub (k # keys) v)) (take m (k # keys)) = Inr (JObj obj)"
      using 3(1)[of ?sub m] by auto
    then show ?thesis
      using Suc by (simp add: Let_def update_conv')
  qed
qed

lemma subscript_errors: "subscript c k = Inl e \<Longrightarrow> e = KeyError \<or> e = TypeError"
  by (cases c) (auto split: option.splits)

lemma get_path_errors: "get_path c ks = Inl e \<Longrightarrow> e = KeyError \<or> e = TypeError"
proof (induction ks arbitrary: c)
  case Nil
  then show ?case by simp
next
  case (Cons k ks)
  then show ?case
    by (cases "subscript c k") (auto dest: subscript_errors)
qed

lemma get_value_total:
  "get_value config key_path dflt =
     Inr (case get_path config (split_char CHR ''.'' key_path) of
            Inr x \<Rightarrow> x
          | Inl e \<Rightarrow> dflt)"
proof (cases "get_path config (split_char CHR ''.'' key_path)")
  case (Inl e)
  then show ?thesis
    using get_path_errors[OF Inl] by (auto simp: get_value_def)
next
  case (Inr x)
  then show ?thesis by (simp add: get_value_def)
qed

text \<open>
  C10.  After \<^verbatim>\<open>set_value(path, value)\<close> on a configuration document,
  \<^verbatim>\<open>get_value(path)\<close> returns that value, whatever the document held and
  whether the file could be written or not; every proper prefix of the path
  then leads to an object.  On any configuration and path \<^verbatim>\<open>get_value\<close>
  returns and never raises: the value the path leads to, and the default when
  the path does not resolve.
\<close>

theorem set_value_then_get_value:
  "get_value (fst (set_value (JObj d) key_path v saved)) key_path dflt = Inr v \<and>
   (\<forall>n < length (split_char CHR ''.'' key_path).
       \<exists>obj. get_path (fst (set_value (JObj d) key_path v saved))
               (take n (split_char CHR ''.'' key_path)) = Inr (JObj obj)) \<and>
   get_value config other_path dflt =
     Inr (case get_path config (split_char CHR ''.'' other_path) of
            Inr x \<Rightarrow> x
          | Inl e \<Rightarrow> dflt)"
  using get_set_path[OF split_char_nonempty] prefix_is_object get_value_total
  by (simp add: set_value_def get_value_def)

theorem set_value_then_get_value_witness:
  "get_value (fst (set_value (JObj [(''llm'', JStr ''openai'')]) ''llm.api.key''
                     (JStr ''secret'') False))
     ''llm.api.key'' JNull = Inr (JStr ''secret'') \<and>
   get_path (fst (set_value (JObj [(''llm'', JStr ''openai'')]) ''llm.api.key''
                    (JStr ''secret'') False)) [''llm'', ''api'']
     = Inr (JObj [(''key'', JStr ''secret'')]) \<and>
   get_value (JObj [(''llm'', JStr ''openai'')]) ''llm.api.key'' (JStr ''none'')
     = Inr (JStr ''none'')"
proof -
  let ?d = "[(''llm'', JStr ''openai'')]"
  have p: "get_path (JObj ?d) (split_char CHR ''.'' ''llm.api.key'') = Inl TypeError"
    by code_simp
  have q: "get_path (fst (set_value (JObj ?d) ''llm.api.key'' (JStr ''secret'') False))
             [''llm'', ''api''] = Inr (JObj [(''key'', JStr ''secret'')])"
    by code_simp
  show ?thesis
    using set_value_then_get_value
            [of ?d "''llm.api.key''" "JStr ''secret''" False JNull "JObj ?d" "''llm.api.key''"]
          set_value_then_get_value
            [of ?d "''llm.api.key''" "JStr ''secret''" False "JStr ''none''" "JObj ?d"
                "''llm.api.key''"]
          p q
    by simp
qed

section \<open>Label rendering\<close>

lemma lower_append: "lower (a @ b) = lower a @ lower b"
  by (simp add: lower_def)

lemma lower_png: "lower ''.png'' = ''.png''"
  by code_simp

lemma endswith_append: "endswith (a @ p) p"
  by (simp add: endswith_def)

lemma ensure_png_suffix: "ensure_png (x @ ''.png'') = x @ ''.png''"
  using endswith_append[of "lower x" "''.png''"]
  by (simp add: ensure_png_def lower_append lower_png)

lemma digit_allowed: "n < 10 \<Longrightarrow> isalnum (digits ! n)"
proof -
  assume "n < 10"
  then have "digits ! n \<in> set digits"
    by (intro nth_mem) (simp add: digits_def)
  then show ?thesis
    by (simp add: isalnum_def)
qed

lemma str_nat_allowed: "c \<in> set (str_nat n) \<Longrightarrow> isalnum c"
proof (induction n rule: str_nat.induct)
  case (1 n)
  show ?case
  proof (cases "n < 10")
    case True
    then have "str_nat n = [digits ! n]"
      by (subst str_nat.simps) simp
    with 1(2) True show ?thesis
      by (simp add: digit_allowed)
  next
    case False
    then have "str_nat n = str_nat (n div 10) @ [digits ! (n mod 10)]"
      by (subst str_nat.simps) simp
    with 1(2) have "c \<in> set (str_nat (n div 10)) \<or> c = digits ! (n mod 10)"
      by auto
    then show ?thesis
      using 1(1)[OF False] digit_allowed[of "n mod 10"] by auto
  qed
qed

lemma str_int_allowed: "c \<in> set (str_int i) \<Longrightarrow> isalnum c \<or> c \<in> set ''_ -''"
  by (auto simp: str_int_def dest: str_nat_allowed split: if_splits)

lemma sanitize_str_int: "sanitize (str_int i) = str_int i"
  unfolding sanitize_def using str_int_allowed by (intro filter_True) blast

lemma sanitize_append: "sanitize (a @ b) = sanitize a @ sanitize b"
  by (simp add: sanitize_def)

lemma sanitize_asset: "sanitize ''asset_'' = ''asset_''"
  by code_simp

lemma sanitize_default: "sanitize (''asset_'' @ str_int i) = ''asset_'' @ str_int i"
  by (simp only: sanitize_append sanitize_asset sanitize_str_int)

lemma sanitize_allowed:
  "c \<in> set (sanitize t) \<Longrightarrow> isalnum c \<or> c = CHR '' '' \<or> c = CHR ''_'' \<or> c = CHR ''-''"
  by (auto simp: sanitize_def)

text \<open>An accented letter of the title stays in the file name.\<close>

lemma sanitize_upper_half:
  "sanitize (''Caf'' @ [CHR 0xE9] @ '' (1)'') = ''Caf'' @ [CHR 0xE9] @ '' 1''"
  by code_simp

lemma auto_file_name:
  assumes "title_or asset_info (''Asset #'' @ str_int asset_id) = JStr cap"
      and "title_or asset_info (''asset_'' @ str_int asset_id) = JStr nm"
  shows "create_asset_qrcode lib url dir asset_id asset_info None =
           (let name = sanitize nm @ ''_'' @ str_int asset_id @ ''.png'';
                img = \<lparr>qr_data = Some (url @ ''/database.php?mode=view&id='' @ str_int asset_id),
                        caption = cap, file_name = name, file_path = path_join dir name\<rparr>
            in if lib img then Inr img else Inl LibraryError)"
proof -
  have "ensure_png (sanitize nm @ ''_'' @ str_int asset_id @ ''.png'')
          = sanitize nm @ ''_'' @ str_int asset_id @ ''.png''"
    using ensure_png_suffix[of "sanitize nm @ ''_'' @ str_int asset_id"]
    by (simp only: append_assoc)
  then show ?thesis
    unfolding create_asset_qrcode_def assms by (simp add: Let_def)
qed

text \<open>
  C9, as the code has it.  With no file name supplied, a record whose title is
  a text gets the file name made of the title's alphanumeric characters,
  spaces, underscores and hyphens, an underscore, the record id and
  \<^verbatim>\<open>.png\<close>; the function fails only when the imaging library does.  The
  default \<^verbatim>\<open>asset_<id>\<close> stands in for a title that is missing, and is followed
  by the id like any title.
\<close>

theorem label_file_name:
  "(map_of asset_info ''title'' = Some (JStr t) \<longrightarrow>
      create_asset_qrcode lib url dir asset_id asset_info None =
        (let name = sanitize t @ ''_'' @ str_int asset_id @ ''.png'';
             img = \<lparr>qr_data = Some (url @ ''/database.php?mode=view&id='' @ str_int asset_id),
                     caption = t, file_name = name, file_path = path_join dir name\<rparr>
         in if lib img then Inr img else Inl LibraryError)) \<and>
   (map_of asset_info ''title'' = None \<longrightarrow>
      create_asset_qrcode lib url dir asset_id asset_info None =
        (let name = ''asset_'' @ str_int asset_id @ ''_'' @ str_int asset_id @ ''.png'';
             img = \<lparr>qr_data = Some (url @ ''/database.php?mode=view&id='' @ str_int asset_id),
                     caption = ''Asset #'' @ str_int asset_id,
                     file_name = name, file_path = path_join dir name\<rparr>
         in if lib img then Inr img else Inl LibraryError)) \<and>
   (\<forall>c \<in> set (sanitize t). isalnum c \<or> c = CHR '' '' \<or> c = CHR ''_'' \<or> c = CHR ''-'')"
proof (intro conjI impI ballI)
  assume t: "map_of asset_info ''title'' = Some (JStr t)"
  show "create_asset_qrcode lib url dir asset_id asset_info None =
          (let name = sanitize t @ ''_'' @ str_int asset_id @ ''.png'';
               img = \<lparr>qr_data = Some (url @ ''/database.php?mode=view&id='' @ str_int asset_id),
                       caption = t, file_name = name, file_path = path_join dir name\<rparr>
           in if lib img then Inr img else Inl LibraryError)"
    by (rule auto_file_name) (simp_all only: title_or_def t option.case)
next
  assume n: "map_of asset_info ''title'' = None"
  have "create_asset_qrcode lib url dir asset_id asset_info None =
          (let name = sanitize (''asset_'' @ str_int asset_id) @ ''_'' @ str_int asset_id @ ''.png'';
               img = \<lparr>qr_data = Some (url @ ''/database.php?mode=view&id='' @ str_int asset_id),
                       caption = ''Asset #'' @ str_int asset_id,
                       file_name = name, file_path = path_join dir name\<rparr>
           in if lib img then Inr img else Inl LibraryError)"
    by (rule auto_file_name) (simp_all only: title_or_def n option.case)
  then show "create_asset_qrcode lib url dir asset_id asset_info None =
          (let name = ''asset_'' @ str_int asset_id @ ''_'' @ str_int asset_id @ ''.png'';
               img = \<lparr>qr_data = Some (url @ ''/database.php?mode=view&id='' @ str_int asset_id),
                       caption = ''Asset #'' @ str_int asset_id,
                       file_name = name, file_path = path_join dir name\<rparr>
           in if lib img then Inr img else Inl LibraryError)"
    by (simp only: sanitize_default append_assoc)
next
  fix c
  assume "c \<in> set (sanitize t)"
  then show "isalnum c \<or> c = CHR '' '' \<or> c = CHR ''_'' \<or> c = CHR ''-''"
    by (rule sanitize_allowed)
qed

theorem label_file_name_witness:
  "create_asset_qrcode (\<lambda>img. True) ''https://elab.local'' ''qrcodes'' 42
     [(''title'', JStr ''Sodium Chloride (99%)'')] None
   = Inr \<lparr>qr_data = Some ''https://elab.local/database.php?mode=view&id=42'',
          caption = ''Sodium Chloride (99%)'',
          file_name = ''Sodium Chloride 99_42.png'',
          file_path = ''qrcodes/Sodium Chloride 99_42.png''\<rparr> \<and>
   create_asset_qrcode (\<lambda>img. True) ''https://elab.local'' ''qrcodes'' 42
     [(''id'', JInt 42)] None
   = Inr \<lparr>qr_data = Some ''https://elab.local/database.php?mode=view&id=42'',
          caption = ''Asset #42'',
          file_name = ''asset_42_42.png'',
          file_path = ''qrcodes/asset_42_42.png''\<rparr>"
proof -
  have s: "sanitize ''Sodium Chloride (99%)'' = ''Sodium Chloride 99''"
    by code_simp
  have i: "str_int 42 = ''42''"
    by code_simp
  have p: "path_join ''qrcodes'' ''Sodium Chloride 99_42.png'' = ''qrcodes/Sodium Chloride 99_42.png''"
    "path_join ''qrcodes'' ''asset_42_42.png'' = ''qrcodes/asset_42_42.png''"
    by code_simp+
  show ?thesis
    using label_file_name
            [of "[(''title'', JStr ''Sodium Chloride (99%)'')]" "''Sodium Chloride (99%)''"
                "\<lambda>img. True" "''https://elab.local''" "''qrcodes''" 42]
          label_file_name
            [of "[(''id'', JInt 42)]" "[]" "\<lambda>img. True" "''https://elab.local''"
                "''qrcodes''" 42]
          s i p
    by (simp add: Let_def)
qed

text \<open>
  C9 as it is written fails: a title with no character fit for a file name
  does not give \<^verbatim>\<open>asset_<id>\<close>; the name is the underscore and the id.
\<close>

theorem label_file_name_counterexample:
  "create_asset_qrcode (\<lambda>img. True) ''https://elab.local'' ''qrcodes'' 42
     [(''title'', JStr ''???'')] None
   = Inr \<lparr>qr_data = Some ''https://elab.local/database.php?mode=view&id=42'',
          caption = ''???'', file_name = ''_42.png'', file_path = ''qrcodes/_42.png''\<rparr>"
  by code_simp

text \<open>
  C8 fails on the code.  With the inventory configured at
  \<^verbatim>\<open>https://10.159.64.205:3148/api/v2\<close>, \<^verbatim>\<open>create_asset_qrcode\<close> encodes the URL
  of that base, and \<^verbatim>\<open>create_label\<close> encodes \<^verbatim>\<open>https://elab.local\<close>, which is
  written into it.
\<close>

theorem create_label_url_is_fixed:
  "QRCodeGenerator_init
     [(''elabftw'', JObj [(''api_url'', JStr ''https://10.159.64.205:3148/api/v2'')])]
   = Inr ''https://10.159.64.205:3148'' \<and>
   create_asset_qrcode (\<lambda>img. True) ''https://10.159.64.205:3148'' ''qrcodes'' 42
     [(''title'', JStr ''Beaker'')] None
   = Inr \<lparr>qr_data = Some ''https://10.159.64.205:3148/database.php?mode=view&id=42'',
          caption = ''Beaker'', file_name = ''Beaker_42.png'',
          file_path = ''qrcodes/Beaker_42.png''\<rparr> \<and>
   create_label (\<lambda>img. True) ''qrcodes'' 42 [(''title'', JStr ''Beaker'')] True None
   = Inr \<lparr>qr_data = Some ''https://elab.local/database.php?mode=view&id=42'',
          caption = ''Beaker'', file_name = ''Beaker_42_label.png'',
          file_path = ''qrcodes/Beaker_42_label.png''\<rparr>"
  by code_simp

section \<open>The workflow\<close>

lemma generate_qrcode_frame:
  "current_asset_id (generate_qrcode env w) = current_asset_id w \<and>
   create_calls (generate_qrcode env w) = create_calls w \<and>
   current_llm_result (generate_qrcode env w) = current_llm_result w"
  by (simp add: generate_qrcode_def set_status_def Let_def split: option.splits sum.splits)

lemma save_when_guards_pass:
  assumes "current_llm_result w = Some r" and "truthy r"
      and "template_combo w = Some template_id" and "template_id \<noteq> 0"
      and "json_loads env (result_text w) = Some (JObj d)"
      and "update_asset_title_from_result (JObj d) = Inr title"
  shows "save_to_elabftw env w =
           (let asset_data = AList.update ''title'' (JStr title) d;
                w' = w\<lparr>status_log := status_log w @ [SavingToElab],
                        current_llm_result := Some (JObj d),
                        create_calls := create_calls w @
                          [(template_id, asset_data, current_image_path w)]\<rparr>
            in (case create_asset_from_llm_data (create_item env) template_id asset_data of
                  Some asset_id \<Rightarrow>
                    generate_qrcode env
                      (set_status (SavedToElab asset_id) (w'\<lparr>current_asset_id := Some asset_id\<rparr>))
                | None \<Rightarrow> set_status FailedToSave w'))"
  using assms
  by (simp add: save_to_elabftw_def set_status_def falsy_id_def Let_def
           del: update_asset_title_from_result.simps split: option.splits)

text \<open>
  C4, as the code has it.  A commit request does not look at
  \<^verbatim>\<open>current_asset_id\<close>.  Whenever its guards pass (a result is there, a
  template is selected, the text parses to a mapping a title can be derived
  from), it asks the inventory for a new record, whatever
  \<^verbatim>\<open>current_asset_id\<close> holds; when the inventory answers with an id,
  \<^verbatim>\<open>current_asset_id\<close> becomes that id, and when it does not,
  \<^verbatim>\<open>current_asset_id\<close> keeps its value.
\<close>

theorem commit_creates_again:
  assumes "current_llm_result w = Some r" and "truthy r"
      and "template_combo w = Some template_id" and "template_id \<noteq> 0"
      and "json_loads env (result_text w) = Some (JObj d)"
      and "update_asset_title_from_result (JObj d) = Inr title"
  shows "create_calls (save_to_elabftw env w) =
           create_calls w @
             [(template_id, AList.update ''title'' (JStr title) d, current_image_path w)] \<and>
         current_asset_id (save_to_elabftw env w) =
           (case create_asset_from_llm_data (create_item env) template_id
                   (AList.update ''title'' (JStr title) d) of
              Some asset_id \<Rightarrow> Some asset_id
            | None \<Rightarrow> current_asset_id w)"
  unfolding save_when_guards_pass[OF assms]
  by (simp add: Let_def set_status_def generate_qrcode_frame split: option.splits)

theorem commit_creates_again_witness:
  \<open>create_calls
     (save_to_elabftw
        \<lparr>json_loads = [''{"name": "Beaker"}'' \<mapsto> JObj [(''name'', JStr ''Beaker'')]],
         create_item = (\<lambda>template_id data. Some 42),
         get_item = (\<lambda>item_id. None), imaging = (\<lambda>img. True),
         base_url = ''https://elab.local'', output_dir = ''qrcodes''\<rparr>
        \<lparr>current_image_path = Some ''beaker.jpg'',
         current_llm_result = Some (JObj [(''name'', JStr ''Beaker'')]),
         current_asset_id = Some 41, result_text = ''{"name": "Beaker"}'',
         template_combo = Some 3, status_log = [],
         create_calls = [(3, [(''name'', JStr ''Beaker''), (''title'', JStr ''Beaker'')],
                          Some ''beaker.jpg'')]\<rparr>)
   = [(3, [(''name'', JStr ''Beaker''), (''title'', JStr ''Beaker'')], Some ''beaker.jpg''),
      (3, [(''name'', JStr ''Beaker''), (''title'', JStr ''Beaker'')], Some ''beaker.jpg'')] \<and>
   current_asset_id
     (save_to_elabftw
        \<lparr>json_loads = [''{"name": "Beaker"}'' \<mapsto> JObj [(''name'', JStr ''Beaker'')]],
         create_item = (\<lambda>template_id data. Some 42),
         get_item = (\<lambda>item_id. None), imaging = (\<lambda>img. True),
         base_url = ''https://elab.local'', output_dir = ''qrcodes''\<rparr>
        \<lparr>current_image_path = Some ''beaker.jpg'',
         current_llm_result = Some (JObj [(''name'', JStr ''Beaker'')]),
         current_asset_id = Some 41, result_text = ''{"name": "Beaker"}'',
         template_combo = Some 3, status_log = [],
         create_calls = [(3, [(''name'', JStr ''Beaker''), (''title'', JStr ''Beaker'')],
                          Some ''beaker.jpg'')]\<rparr>)
   = Some 42\<close>
proof -
  let ?env = \<open>\<lparr>json_loads = [''{"name": "Beaker"}'' \<mapsto> JObj [(''name'', JStr ''Beaker'')]],
               create_item = (\<lambda>template_id data. Some (42 :: int)),
               get_item = (\<lambda>item_id. None), imaging = (\<lambda>img. True),
               base_url = ''https://elab.local'', output_dir = ''qrcodes''\<rparr>\<close>
  let ?w = \<open>\<lparr>current_image_path = Some ''beaker.jpg'',
             current_llm_result = Some (JObj [(''name'', JStr ''Beaker'')]),
             current_asset_id = Some 41, result_text = ''{"name": "Beaker"}'',
             template_combo = Some 3, status_log = [],
             create_calls = [(3, [(''name'', JStr ''Beaker''), (''title'', JStr ''Beaker'')],
                              Some ''beaker.jpg'')]\<rparr>\<close>
  have r: "current_llm_result ?w = Some (JObj [(''name'', JStr ''Beaker'')])"
    and t: "truthy (JObj [(''name'', JStr ''Beaker'')])"
    and c: "template_combo ?w = Some 3" and z: "(3 :: int) \<noteq> 0"
    and l: "json_loads ?env (result_text ?w) = Some (JObj [(''name'', JStr ''Beaker'')])"
    by simp_all
  have u: "update_asset_title_from_result (JObj [(''name'', JStr ''Beaker'')]) = Inr ''Beaker''"
    by code_simp
  have a: "AList.update ''title'' (JStr ''Beaker'') [(''name'', JStr ''Beaker'')]
             = [(''name'', JStr ''Beaker''), (''title'', JStr ''Beaker'')]"
    by code_simp
  show ?thesis
    using commit_creates_again[OF r t c z l u]
    by (simp add: a create_asset_from_llm_data_def)
qed

text \<open>
  C4 as it is written fails.  A draft committed with the record id 41 is
  committed again: the second request is not refused, a second creation is
  asked of the inventory, and the id the inventory answers with, 42, replaces
  41.
\<close>

theorem commit_counterexample:
  \<open>current_asset_id
     (save_to_elabftw
        \<lparr>json_loads = [''{"name": "Beaker"}'' \<mapsto> JObj [(''name'', JStr ''Beaker'')]],
         create_item = (\<lambda>template_id data. Some 41),
         get_item = (\<lambda>item_id. None), imaging = (\<lambda>img. True),
         base_url = ''https://elab.local'', output_dir = ''qrcodes''\<rparr>
        \<lparr>current_image_path = Some ''beaker.jpg'',
         current_llm_result = Some (JObj [(''name'', JStr ''Beaker'')]),
         current_asset_id = None, result_text = ''{"name": "Beaker"}'',
         template_combo = Some 3, status_log = [], create_calls = []\<rparr>)
   = Some 41 \<and>
   current_asset_id
     (save_to_elabftw
        \<lparr>json_loads = [''{"name": "Beaker"}'' \<mapsto> JObj [(''name'', JStr ''Beaker'')]],
         create_item = (\<lambda>template_id data. Some 42),
         get_item = (\<lambda>item_id. None), imaging = (\<lambda>img. True),
         base_url = ''https://elab.local'', output_dir = ''qrcodes''\<rparr>
        (save_to_elabftw
           \<lparr>json_loads = [''{"name": "Beaker"}'' \<mapsto> JObj [(''name'', JStr ''Beaker'')]],
            create_item = (\<lambda>template_id data. Some 41),
            get_item = (\<lambda>item_id. None), imaging = (\<lambda>img. True),
            base_url = ''https://elab.local'', output_dir = ''qrcodes''\<rparr>
           \<lparr>current_image_path = Some ''beaker.jpg'',
            current_llm_result = Some (JObj [(''name'', JStr ''Beaker'')]),
            current_asset_id = None, result_text = ''{"name": "Beaker"}'',
            template_combo = Some 3, status_log = [], create_calls = []\<rparr>))
   = Some 42 \<and>
   length (create_calls
     (save_to_elabftw
        \<lparr>json_loads = [''{"name": "Beaker"}'' \<mapsto> JObj [(''name'', JStr ''Beaker'')]],
         create_item = (\<lambda>template_id data. Some 42),
         get_item = (\<lambda>item_id. None), imaging = (\<lambda>img. True),
         base_url = ''https://elab.local'', output_dir = ''qrcodes''\<rparr>
        (save_to_elabftw
           \<lparr>json_loads = [''{"name": "Beaker"}'' \<mapsto> JObj [(''name'', JStr ''Beaker'')]],
            create_item = (\<lambda>template_id data. Some 41),
            get_item = (\<lambda>item_id. None), imaging = (\<lambda>img. True),
            base_url = ''https://elab.local'', output_dir = ''qrcodes''\<rparr>
           \<lparr>current_image_path = Some ''beaker.jpg'',
            current_llm_result = Some (JObj [(''name'', JStr ''Beaker'')]),
            current_asset_id = None, result_text = ''{"name": "Beaker"}'',
            template_combo = Some 3, status_log = [], create_calls = []\<rparr>)))
   = 2\<close>
  by code_simp

lemma save_unparseable:
  assumes "json_loads env (result_text w) = None"
  shows "save_to_elabftw env w =
           (if (case current_llm_result w of None \<Rightarrow> True | Some r \<Rightarrow> \<not> truthy r)
            then set_status PleaseAnalyzeFirst w
            else if falsy_id (template_combo w)
            then set_status PleaseSelectTemplate (set_status SavingToElab w)
            else set_status InvalidJSON (set_status SavingToElab w))"
  using assms by (simp add: save_to_elabftw_def set_status_def Let_def)

text \<open>
  C7, as the code has it.  An edit of the result text that does not parse
  leaves the whole window as it was, the status line included: nothing is
  shown to the operator at that moment.  The hint comes when a commit is
  requested with such a text: the commit then changes neither the stored
  result nor the record id, asks nothing of the inventory, and, once a result
  is there and a template is selected, ends on the message that the edited
  result contains invalid JSON.
\<close>

theorem unparseable_edit:
  assumes "json_loads env (result_text w) = None"
  shows "on_result_text_changed env w = w \<and>
         current_llm_result (save_to_elabftw env w) = current_llm_result w \<and>
         current_asset_id (save_to_elabftw env w) = current_asset_id w \<and>
         create_calls (save_to_elabftw env w) = create_calls w \<and>
         ((\<exists>r. current_llm_result w = Some r \<and> truthy r) \<and> \<not> falsy_id (template_combo w) \<longrightarrow>
            status_log (save_to_elabftw env w) = status_log w @ [SavingToElab, InvalidJSON])"
  unfolding save_unparseable[OF assms]
  using assms by (auto simp: on_result_text_changed_def set_status_def)

theorem unparseable_edit_witness:
  "on_result_text_changed
     \<lparr>json_loads = [''{}'' \<mapsto> JObj []], create_item = (\<lambda>template_id data. Some 42),
      get_item = (\<lambda>item_id. None), imaging = (\<lambda>img. True),
      base_url = ''https://elab.local'',
      output_dir = ''qrcodes''\<rparr>
     \<lparr>current_image_path = Some ''beaker.jpg'',
      current_llm_result = Some (JObj [(''name'', JStr ''Beaker'')]),
      current_asset_id = None, result_text = ''{ name'', template_combo = Some 3,
      status_log = [], create_calls = []\<rparr>
   = \<lparr>current_image_path = Some ''beaker.jpg'',
      current_llm_result = Some (JObj [(''name'', JStr ''Beaker'')]),
      current_asset_id = None, result_text = ''{ name'', template_combo = Some 3,
      status_log = [], create_calls = []\<rparr> \<and>
   status_log
     (save_to_elabftw
        \<lparr>json_loads = [''{}'' \<mapsto> JObj []], create_item = (\<lambda>template_id data. Some 42),
         get_item = (\<lambda>item_id. None), imaging = (\<lambda>img. True),
      base_url = ''https://elab.local'',
         output_dir = ''qrcodes''\<rparr>
        \<lparr>current_image_path = Some ''beaker.jpg'',
         current_llm_result = Some (JObj [(''name'', JStr ''Beaker'')]),
         current_asset_id = None, result_text = ''{ name'', template_combo = Some 3,
         status_log = [], create_calls = []\<rparr>)
   = [SavingToElab, InvalidJSON]"
proof -
  let ?env = "\<lparr>json_loads = [''{}'' \<mapsto> JObj []],
               create_item = (\<lambda>template_id data. Some (42 :: int)),
               get_item = (\<lambda>item_id. None), imaging = (\<lambda>img. True),
      base_url = ''https://elab.local'',
               output_dir = ''qrcodes''\<rparr>"
  let ?w = "\<lparr>current_image_path = Some ''beaker.jpg'',
             current_llm_result = Some (JObj [(''name'', JStr ''Beaker'')]),
             current_asset_id = None, result_text = ''{ name'', template_combo = Some 3,
             status_log = [], create_calls = []\<rparr>"
  have n: "json_loads ?env (result_text ?w) = None"
    by simp
  have g: "(\<exists>r. current_llm_result ?w = Some r \<and> truthy r) \<and> \<not> falsy_id (template_combo ?w)"
    by (simp add: falsy_id_def)
  show ?thesis
    using unparseable_edit[OF n] g by simp
qed

text \<open>
  C7 as it is written fails: the edit that does not parse surfaces no hint.
  After it the status line shows what it showed before.
\<close>

theorem unparseable_edit_counterexample:
  "json_loads
     \<lparr>json_loads = [''{}'' \<mapsto> JObj []], create_item = (\<lambda>template_id data. Some 42),
      get_item = (\<lambda>item_id. None), imaging = (\<lambda>img. True),
      base_url = ''https://elab.local'',
      output_dir = ''qrcodes''\<rparr> ''{ name'' = None \<and>
   status_log
     (on_result_text_changed
        \<lparr>json_loads = [''{}'' \<mapsto> JObj []], create_item = (\<lambda>template_id data. Some 42),
         get_item = (\<lambda>item_id. None), imaging = (\<lambda>img. True),
      base_url = ''https://elab.local'',
         output_dir = ''qrcodes''\<rparr>
        \<lparr>current_image_path = Some ''beaker.jpg'',
         current_llm_result = Some (JObj [(''name'', JStr ''Beaker'')]),
         current_asset_id = None, result_text = ''{ name'', template_combo = Some 3,
         status_log = [], create_calls = []\<rparr>)
   = []"
  by code_simp


end
